theory Spec2Isabelle
  imports
    Complex_Main
    "HOL-Library.Multiset"
    "HOL-Library.Char_ord"
    "HOL-Library.List_Lexorder"
    "HOL-Library.Product_Lexorder"
begin

section \<open>MediAssist (app.py): a shallow embedding\<close>

text \<open>
  The program is one Streamlit script: module-level configuration, four functions that
  call external services (a chat model, a document database, a places search) and three
  tabs of widgets wired to them. The embedding keeps the functions and the branches of
  the script. What the external services answer is a parameter of each function; every
  exception is a value of type \<open>exn\<close>, and a function that can let one escape returns
  \<open>exn + 'a\<close> (\<open>Inl\<close> the escaping exception). Static page content (titles, CSS,
  widget labels) is left out.
\<close>

subsection \<open>Exceptions, formatted text and page output\<close>

text \<open>
  The exception classes the script can meet. \<open>ValueError\<close>, \<open>KeyError\<close>,
  \<open>TypeError\<close> and \<open>AttributeError\<close> are raised by the Python code itself;
  the others by the libraries. \<open>HTTPError\<close> and the \<open>JSONDecodeError\<close> of
  \<open>requests\<close> are subclasses of \<open>RequestException\<close>; the latter is a subclass of
  \<open>json.JSONDecodeError\<close> too. All are subclasses of \<open>Exception\<close>.
\<close>

datatype exn =
    ValueError
  | KeyError
  | TypeError
  | AttributeError
  | JSONDecodeError
  | RequestException string
  | HTTPError nat
  | Requests_JSONDecodeError
  | Exception string

fun is_RequestException :: "exn \<Rightarrow> bool" where
  "is_RequestException (RequestException m) = True"
| "is_RequestException (HTTPError status) = True"
| "is_RequestException Requests_JSONDecodeError = True"
| "is_RequestException e = False"

fun is_JSONDecodeError :: "exn \<Rightarrow> bool" where
  "is_JSONDecodeError JSONDecodeError = True"
| "is_JSONDecodeError Requests_JSONDecodeError = True"
| "is_JSONDecodeError e = False"

text \<open>A JSON value as \<open>response.json()\<close> returns it; a dict is the list of its items.\<close>

datatype json =
    JNull
  | JBool bool
  | JNum rat
  | JStr string
  | JList "json list"
  | JDict "(string \<times> json) list"

text \<open>
  An f-string is the list of its pieces: literal text, a code point outside ASCII, and the
  \<open>str()\<close> of an interpolated number, exception or JSON value.
\<close>

datatype frag =
    Lit string
  | Uni nat
  | Str_nat nat
  | Str_exn exn
  | Str_json json

type_synonym fstring = "frag list"

subsection \<open>Reminder times: \<open>strftime("%H:%M")\<close> and \<open>strptime(_, "%H:%M")\<close>\<close>

text \<open>A naive \<open>datetime.time\<close>.\<close>

record pytime =
  hour :: nat
  minute :: nat
  second :: nat
  microsecond :: nat

definition valid_time :: "pytime \<Rightarrow> bool" where
  "valid_time t =
     (hour t < 24 \<and> minute t < 60 \<and> second t < 60 \<and> microsecond t < 1000000)"

text \<open>Python compares two times as the tuples of their fields.\<close>

definition time_tuple :: "pytime \<Rightarrow> nat \<times> nat \<times> nat \<times> nat" where
  "time_tuple t = (hour t, minute t, second t, microsecond t)"

definition digit_char :: "nat \<Rightarrow> char" where
  "digit_char n = char_of (48 + n)"

text \<open>\<open>reminder_time.strftime("%H:%M")\<close>: two digits, a colon, two digits.\<close>

definition strftime_HM :: "pytime \<Rightarrow> string" where
  "strftime_HM t =
     [digit_char (hour t div 10), digit_char (hour t mod 10), CHR '':'',
      digit_char (minute t div 10), digit_char (minute t mod 10)]"

text \<open>
  \<open>datetime.strptime(s, "%H:%M")\<close> matches \<open>s\<close> against the regular expression
  \<open>(2[0-3]|[0-1]\d|\d):([0-5]\d|\d)\<close> from its start, and raises \<open>ValueError\<close> when
  there is no match or when the match leaves text over. The alternatives are tried in the
  order written, with backtracking; each parser below returns its matches in that order.
  Characters are ASCII here, so \<open>\d\<close> is \<open>[0-9]\<close>.
\<close>

definition in_range :: "char \<Rightarrow> nat \<Rightarrow> nat \<Rightarrow> bool" where
  "in_range c lo hi = (48 + lo \<le> (of_char c :: nat) \<and> (of_char c :: nat) \<le> 48 + hi)"

definition digit_val :: "char \<Rightarrow> nat" where
  "digit_val c = of_char c - 48"

fun two_digits :: "nat \<Rightarrow> nat \<Rightarrow> nat \<Rightarrow> nat \<Rightarrow> string \<Rightarrow> (nat \<times> string) list" where
  "two_digits lo1 hi1 lo2 hi2 (c1 # c2 # r) =
     (if in_range c1 lo1 hi1 \<and> in_range c2 lo2 hi2
      then [(10 * digit_val c1 + digit_val c2, r)] else [])"
| "two_digits lo1 hi1 lo2 hi2 s = []"

fun one_digit :: "string \<Rightarrow> (nat \<times> string) list" where
  "one_digit (c # r) = (if in_range c 0 9 then [(digit_val c, r)] else [])"
| "one_digit [] = []"

definition hour_alts :: "string \<Rightarrow> (nat \<times> string) list" where
  "hour_alts s = two_digits 2 2 0 3 s @ two_digits 0 1 0 9 s @ one_digit s"

definition minute_alts :: "string \<Rightarrow> (nat \<times> string) list" where
  "minute_alts s = two_digits 0 5 0 9 s @ one_digit s"

fun colon :: "string \<Rightarrow> string list" where
  "colon (c # r) = (if c = CHR '':'' then [r] else [])"
| "colon [] = []"

definition regex_HM :: "string \<Rightarrow> (nat \<times> nat \<times> string) list" where
  "regex_HM s =
     concat (map (\<lambda>(h, r1).
       concat (map (\<lambda>r2. map (\<lambda>(m, r3). (h, m, r3)) (minute_alts r2)) (colon r1)))
       (hour_alts s))"

definition strptime_HM :: "string \<Rightarrow> exn + pytime" where
  "strptime_HM s =
     (case regex_HM s of
        [] \<Rightarrow> Inl ValueError
      | (h, m, rest) # others \<Rightarrow>
          if rest \<noteq> [] then Inl ValueError
          else Inr \<lparr>hour = h, minute = m, second = 0, microsecond = 0\<rparr>)"

subsection \<open>The document database\<close>

text \<open>
  A stored field value, as \<open>to_dict()\<close> hands it back: a string or a timestamp. A field
  of a document being written is a value or the sentinel \<open>firestore.SERVER_TIMESTAMP\<close>.
\<close>

datatype fs_value = FStr string | FTimestamp nat

datatype write_value = Value fs_value | SERVER_TIMESTAMP

type_synonym document = "string \<rightharpoonup> fs_value"

text \<open>The store: for each collection name, its documents in the order they were created.\<close>

type_synonym firestore = "string \<Rightarrow> document list"

text \<open>What the service answers to a write (the time of the commit) and to a query.\<close>

datatype add_reply = Committed nat | Add_raises exn

datatype stream_reply = Streams | Stream_raises exn

text \<open>
  Modelled from the spec: the client library of the document database is not part of the
  repository; the spec names its two operations, add-document and
  query-by-field-ordered-by-timestamp. \<open>collection_add\<close> is
  \<open>db.collection(c).add(data)\<close>: a new document (under a fresh identifier) whose
  sentinel fields hold the commit time; a failed call stores nothing.
  \<open>where_order_by_stream\<close> is
  \<open>db.collection(c).where(f, "==", v).order_by(o).stream()\<close>: the documents of the
  collection whose field \<open>f\<close> equals \<open>v\<close> and that have a field \<open>o\<close>, in ascending
  order of \<open>o\<close> (timestamps before strings); documents with equal \<open>o\<close> are left in
  creation order.
\<close>

definition resolve :: "nat \<Rightarrow> (string \<rightharpoonup> write_value) \<Rightarrow> document" where
  "resolve now data =
     (\<lambda>k. case data k of
             None \<Rightarrow> None
           | Some SERVER_TIMESTAMP \<Rightarrow> Some (FTimestamp now)
           | Some (Value v) \<Rightarrow> Some v)"

definition collection_add ::
  "add_reply \<Rightarrow> firestore \<Rightarrow> string \<Rightarrow> (string \<rightharpoonup> write_value) \<Rightarrow> exn + firestore" where
  "collection_add reply store c data =
     (case reply of
        Add_raises e \<Rightarrow> Inl e
      | Committed now \<Rightarrow> Inr (store(c := store c @ [resolve now data])))"

fun order_key :: "fs_value option \<Rightarrow> nat \<times> nat \<times> string" where
  "order_key (Some (FTimestamp t)) = (0, t, [])"
| "order_key (Some (FStr s)) = (1, 0, s)"
| "order_key None = (2, 0, [])"

definition where_order_by_stream ::
  "stream_reply \<Rightarrow> firestore \<Rightarrow> string \<Rightarrow> string \<Rightarrow> fs_value \<Rightarrow> string \<Rightarrow> exn + document list" where
  "where_order_by_stream reply store c f v ord =
     (case reply of
        Stream_raises e \<Rightarrow> Inl e
      | Streams \<Rightarrow>
          Inr (sort_key (\<lambda>d. order_key (d ord))
                 (filter (\<lambda>d. d f = Some v \<and> d ord \<noteq> None) (store c))))"

subsection \<open>Page output\<close>

record row =
  Medicine :: fs_value
  Dosage :: fs_value
  Time :: fs_value

datatype ui =
    Error fstring
  | Success fstring
  | Info fstring
  | Warning fstring
  | Markdown fstring
  | Table "row list"

subsection \<open>Configuration (lines 12 to 39)\<close>

record config =
  GEMINI_API_KEY :: "string option"
  GOOGLE_MAPS_API_KEY :: "string option"
  db :: "firestore option"

text \<open>\<open>not key\<close> for the result of \<open>os.getenv\<close>: \<open>None\<close> and the empty string are falsy.\<close>

fun unset :: "string option \<Rightarrow> bool" where
  "unset None = True"
| "unset (Some s) = (s = [])"

text \<open>\<open>os.path.exists(p)\<close>: a \<open>None\<close> argument raises \<open>TypeError\<close>.\<close>

fun os_path_exists :: "(string \<Rightarrow> bool) \<Rightarrow> string option \<Rightarrow> exn + bool" where
  "os_path_exists files None = Inl TypeError"
| "os_path_exists files (Some p) = Inr (files p)"

text \<open>
  The \<open>try\<close> block of lines 32 to 36. \<open>connect\<close> is
  \<open>firestore.Client.from_service_account_json\<close>, which returns a client or raises.
\<close>

definition initialize_firestore ::
  "(string \<Rightarrow> string option) \<Rightarrow> (string \<Rightarrow> bool) \<Rightarrow> (string \<Rightarrow> exn + firestore)
     \<Rightarrow> exn + (firestore option \<times> ui list)" where
  "initialize_firestore getenv files connect =
     (case os_path_exists files (getenv ''FIRESTORE_CREDENTIALS'') of
        Inl e \<Rightarrow> Inl e
      | Inr True \<Rightarrow>
          (case getenv ''FIRESTORE_CREDENTIALS'' of
             None \<Rightarrow> Inl TypeError
           | Some p \<Rightarrow>
               (case connect p of Inl e \<Rightarrow> Inl e | Inr client \<Rightarrow> Inr (Some client, [])))
      | Inr False \<Rightarrow>
          Inr (None,
               [Error [Lit ''Firestore credentials file not found. Please check your .env and file path.'']]))"

definition startup ::
  "(string \<Rightarrow> string option) \<Rightarrow> (string \<Rightarrow> bool) \<Rightarrow> (string \<Rightarrow> exn + firestore)
     \<Rightarrow> config \<times> ui list" where
  "startup getenv files connect =
     (let temp_gemini_key = getenv ''GEMINI_API_KEY'';
          debug = (if unset temp_gemini_key
                   then [Error [Lit ''DEBUG: GEMINI_API_KEY is None! Check your .env file.'']]
                   else []);
          gemini = getenv ''GEMINI_API_KEY'';
          maps = getenv ''GOOGLE_MAPS_API_KEY'';
          configured = (if \<not> unset gemini then []
                        else [Error [Lit ''Gemini API Key not found. Please set GEMINI_API_KEY in your .env file.'']]);
          (handle, msgs) =
            (case initialize_firestore getenv files connect of
               Inr r \<Rightarrow> r
             | Inl e \<Rightarrow> (None, [Error [Lit ''Error initializing Firestore: '', Str_exn e]]))
      in (\<lparr>GEMINI_API_KEY = gemini, GOOGLE_MAPS_API_KEY = maps, db = handle\<rparr>,
          debug @ configured @ msgs))"

subsection \<open>The chat function\<close>


subsection \<open>The reminder functions\<close>

text \<open>The dict literal of lines 57 to 63.\<close>

definition reminder_data ::
  "string \<Rightarrow> string \<Rightarrow> string \<Rightarrow> string \<Rightarrow> (string \<rightharpoonup> write_value)" where
  "reminder_data user_id medicine_name dosage reminder_time_str =
     [''user_id'' \<mapsto> Value (FStr user_id),
      ''medicine_name'' \<mapsto> Value (FStr medicine_name),
      ''dosage'' \<mapsto> Value (FStr dosage),
      ''time'' \<mapsto> Value (FStr reminder_time_str),
      ''created_at'' \<mapsto> SERVER_TIMESTAMP]"

text \<open>
  The result is the returned boolean, the messages shown and the database handle with
  the store behind it after the call.
\<close>

definition add_reminder_to_firestore ::
  "firestore option \<Rightarrow> add_reply \<Rightarrow> string \<Rightarrow> string \<Rightarrow> string \<Rightarrow> string
     \<Rightarrow> bool \<times> ui list \<times> firestore option" where
  "add_reminder_to_firestore handle reply user_id medicine_name dosage reminder_time_str =
     (case handle of
        None \<Rightarrow> (False, [Error [Lit ''Firestore is not initialized. Cannot add reminder.'']], None)
      | Some store \<Rightarrow>
          (case collection_add reply store ''reminders''
                  (reminder_data user_id medicine_name dosage reminder_time_str) of
             Inr store' \<Rightarrow> (True, [], Some store')
           | Inl e \<Rightarrow>
               (False, [Error [Lit ''Error adding reminder to Firestore: '', Str_exn e]],
                Some store)))"

definition get_reminders_from_firestore ::
  "firestore option \<Rightarrow> stream_reply \<Rightarrow> string \<Rightarrow> document list \<times> ui list" where
  "get_reminders_from_firestore handle reply user_id =
     (case handle of
        None \<Rightarrow> ([], [Error [Lit ''Firestore is not initialized. Cannot retrieve reminders.'']])
      | Some store \<Rightarrow>
          (case where_order_by_stream reply store ''reminders''
                  ''user_id'' (FStr user_id) ''created_at'' of
             Inr reminders \<Rightarrow> (reminders, [])
           | Inl e \<Rightarrow> ([], [Error [Lit ''Error fetching reminders from Firestore: '', Str_exn e]])))"

subsection \<open>The clinic search function\<close>

text \<open>Truth value of a JSON value in a condition.\<close>

fun truthy :: "json \<Rightarrow> bool" where
  "truthy JNull = False"
| "truthy (JBool b) = b"
| "truthy (JNum n) = (n \<noteq> 0)"
| "truthy (JStr s) = (s \<noteq> [])"
| "truthy (JList l) = (l \<noteq> [])"
| "truthy (JDict d) = (d \<noteq> [])"

text \<open>\<open>obj.get(key, default)\<close>: only a dict has the method.\<close>

fun py_get :: "json \<Rightarrow> string \<Rightarrow> json \<Rightarrow> exn + json" where
  "py_get (JDict d) k dflt = Inr (case map_of d k of Some v \<Rightarrow> v | None \<Rightarrow> dflt)"
| "py_get obj k dflt = Inl AttributeError"

text \<open>
  \<open>results[:5]\<close>, as the list the loop runs over: a list gives its first five items, a
  string its first five characters; a number and a boolean cannot be sliced, and a dict
  has no such key (\<open>TypeError\<close> before Python 3.12, \<open>KeyError\<close> from then on;
  the script catches neither).
\<close>

fun slice5 :: "json \<Rightarrow> exn + json list" where
  "slice5 (JList l) = Inr (take 5 l)"
| "slice5 (JStr s) = Inr (map (\<lambda>c. JStr [c]) (take 5 s))"
| "slice5 v = Inl TypeError"

record clinic =
  name :: json
  address :: json
  rating :: json
  link :: fstring

text \<open>The body of the loop (lines 103 to 115): the clinic appended, if any.\<close>

definition clinic_of :: "json \<Rightarrow> exn + clinic option" where
  "clinic_of place =
     (case py_get place ''name'' JNull of
        Inl e \<Rightarrow> Inl e
      | Inr name' \<Rightarrow>
     (case py_get place ''formatted_address'' JNull of
        Inl e \<Rightarrow> Inl e
      | Inr address' \<Rightarrow>
     (case py_get place ''rating'' (JStr ''N/A'') of
        Inl e \<Rightarrow> Inl e
      | Inr rating' \<Rightarrow>
     (case py_get place ''place_id'' JNull of
        Inl e \<Rightarrow> Inl e
      | Inr place_id \<Rightarrow>
          if truthy name' \<and> truthy address' \<and> truthy place_id
          then
            let google_maps_link =
                  [Lit ''https://www.google.com/maps/search/?api=1&query='', Str_json name',
                   Lit '','', Str_json address', Lit ''&query_place_id='', Str_json place_id]
            in Inr (Some \<lparr>name = name', address = address', rating = rating',
                          link = google_maps_link\<rparr>)
          else Inr None))))"

fun places_loop :: "json list \<Rightarrow> clinic list \<Rightarrow> exn + clinic list" where
  "places_loop [] clinics = Inr clinics"
| "places_loop (place # places) clinics =
     (case clinic_of place of
        Inl e \<Rightarrow> Inl e
      | Inr None \<Rightarrow> places_loop places clinics
      | Inr (Some c) \<Rightarrow> places_loop places (clinics @ [c]))"

text \<open>
  The answer to \<open>requests.get\<close>: an exception, or a response with its status and what
  \<open>response.json()\<close> will do.
\<close>

datatype body = Json json | Json_raises exn

datatype http_reply = Get_raises exn | Response nat body

text \<open>\<open>response.raise_for_status()\<close>.\<close>

definition raise_for_status :: "nat \<Rightarrow> exn + unit" where
  "raise_for_status status =
     (if 400 \<le> status \<and> status < 600 then Inl (HTTPError status) else Inr ())"

text \<open>The \<open>try\<close> block of lines 96 to 116.\<close>

definition search_places ::
  "(string \<Rightarrow> (string \<times> string) list \<Rightarrow> http_reply) \<Rightarrow> string \<Rightarrow> string
     \<Rightarrow> exn + clinic list" where
  "search_places requests_get key location =
     (let base_url = ''https://maps.googleapis.com/maps/api/place/textsearch/json'';
          params = [(''query'', ''clinics or hospitals near '' @ location), (''key'', key)]
      in case requests_get base_url params of
           Get_raises e \<Rightarrow> Inl e
         | Response status b \<Rightarrow>
             (case raise_for_status status of
                Inl e \<Rightarrow> Inl e
              | Inr u \<Rightarrow>
                  (case b of
                     Json_raises e \<Rightarrow> Inl e
                   | Json data \<Rightarrow>
                       (case py_get data ''results'' JNull of
                          Inl e \<Rightarrow> Inl e
                        | Inr results \<Rightarrow>
                            if truthy results
                            then (case slice5 results of
                                    Inl e \<Rightarrow> Inl e
                                  | Inr places \<Rightarrow> places_loop places [])
                            else Inr []))))"

definition find_nearby_clinics ::
  "string option \<Rightarrow> (string \<Rightarrow> (string \<times> string) list \<Rightarrow> http_reply) \<Rightarrow> string
     \<Rightarrow> exn + (clinic list \<times> ui list)" where
  "find_nearby_clinics maps_key requests_get location =
     (case maps_key of
        None \<Rightarrow>
          Inr ([], [Error [Lit ''Google Maps API Key is not set. Please add it to your .env file.'']])
      | Some key \<Rightarrow>
          if key = []
          then Inr ([], [Error [Lit ''Google Maps API Key is not set. Please add it to your .env file.'']])
          else
            (case search_places requests_get key location of
               Inr clinics \<Rightarrow> Inr (clinics, [])
             | Inl e \<Rightarrow>
                 if is_RequestException e
                 then Inr ([], [Error [Lit ''Error connecting to Google Maps API: '', Str_exn e,
                                       Lit ''. Check your API key and network.'']])
                 else if is_JSONDecodeError e
                 then Inr ([], [Error [Lit ''Error decoding JSON response from Google Maps API.'']])
                 else Inl e))"

subsection \<open>The three tabs\<close>


text \<open>
  Tab 2, the form (lines 206 to 215). A \<open>datetime.time\<close> is always true in a condition
  (Python 3.5 and later), so the test of \<open>reminder_time\<close> is not a branch.
\<close>

definition medicine_reminder_form ::
  "firestore option \<Rightarrow> add_reply \<Rightarrow> string \<Rightarrow> bool \<Rightarrow> string \<Rightarrow> string \<Rightarrow> pytime
     \<Rightarrow> ui list \<times> firestore option" where
  "medicine_reminder_form handle reply user_id submit_reminder medicine_name dosage reminder_time =
     (if submit_reminder
      then (if medicine_name \<noteq> [] \<and> dosage \<noteq> []
            then
              let reminder_time_str = strftime_HM reminder_time
              in (case add_reminder_to_firestore handle reply user_id medicine_name dosage
                         reminder_time_str of
                    (ok, msgs, handle') \<Rightarrow>
                      if ok
                      then (msgs @ [Success [Lit ''Reminder for '', Lit medicine_name, Lit '' at '',
                                             Lit reminder_time_str, Lit '' added!'']], handle')
                      else (msgs @ [Error [Lit ''Failed to add reminder.'']], handle'))
            else ([Warning [Lit ''Please fill in all fields for the reminder.'']], handle))
      else ([], handle))"

text \<open>
  Tab 2, the list (lines 219 to 233). The sort key of a reminder (line 221):
  \<open>x["time"]\<close> raises \<open>KeyError\<close> without the key, \<open>strptime\<close> raises
  \<open>TypeError\<close> on a value that is not a string and \<open>ValueError\<close> on a string that
  does not match.
\<close>

definition reminder_key :: "document \<Rightarrow> exn + pytime" where
  "reminder_key x =
     (case x ''time'' of
        None \<Rightarrow> Inl KeyError
      | Some (FTimestamp t) \<Rightarrow> Inl TypeError
      | Some (FStr s) \<Rightarrow> strptime_HM s)"

text \<open>\<open>sorted\<close> computes the key of every item first, in list order.\<close>

fun reminder_keys :: "document list \<Rightarrow> exn + pytime list" where
  "reminder_keys [] = Inr []"
| "reminder_keys (x # xs) =
     (case reminder_key x of
        Inl e \<Rightarrow> Inl e
      | Inr k \<Rightarrow> (case reminder_keys xs of Inl e \<Rightarrow> Inl e | Inr ks \<Rightarrow> Inr (k # ks)))"

text \<open>\<open>sorted(user_reminders, key=...)\<close>: a stable sort of the items by their keys.\<close>

definition sorted_reminders :: "document list \<Rightarrow> exn + document list" where
  "sorted_reminders user_reminders =
     (case reminder_keys user_reminders of
        Inl e \<Rightarrow> Inl e
      | Inr ks \<Rightarrow> Inr (map snd (sort_key (\<lambda>p. time_tuple (fst p)) (zip ks user_reminders))))"

definition display_row :: "document \<Rightarrow> exn + row" where
  "display_row reminder =
     (case reminder ''medicine_name'' of
        None \<Rightarrow> Inl KeyError
      | Some m \<Rightarrow>
     (case reminder ''dosage'' of
        None \<Rightarrow> Inl KeyError
      | Some d \<Rightarrow>
     (case reminder ''time'' of
        None \<Rightarrow> Inl KeyError
      | Some t \<Rightarrow> Inr \<lparr>Medicine = m, Dosage = d, Time = t\<rparr>)))"

fun display_data :: "document list \<Rightarrow> row list \<Rightarrow> exn + row list" where
  "display_data [] acc = Inr acc"
| "display_data (reminder # rest) acc =
     (case display_row reminder of
        Inl e \<Rightarrow> Inl e
      | Inr r \<Rightarrow> display_data rest (acc @ [r]))"

definition saved_reminders :: "document list \<Rightarrow> exn + ui list" where
  "saved_reminders user_reminders =
     (if user_reminders \<noteq> []
      then (case sorted_reminders user_reminders of
              Inl e \<Rightarrow> Inl e
            | Inr srt \<Rightarrow>
                (case display_data srt [] of
                   Inl e \<Rightarrow> Inl e
                 | Inr rows \<Rightarrow> Inr [Table rows]))
      else Inr [Info [Lit ''No medicine reminders set yet. Add one above!'']])"




subsection \<open>Sequences of database operations\<close>

text \<open>
  The two operations on the database the script has, and a run of them from a handle.
  The script has no other call on \<open>db\<close>.
\<close>

datatype db_call =
    Add add_reply string string string string
  | List_reminders stream_reply string

fun db_step :: "db_call \<Rightarrow> firestore option \<Rightarrow> firestore option" where
  "db_step (Add reply user_id medicine_name dosage reminder_time_str) handle =
     snd (snd (add_reminder_to_firestore handle reply user_id medicine_name dosage
                 reminder_time_str))"
| "db_step (List_reminders reply user_id) handle = handle"

fun db_run :: "db_call list \<Rightarrow> firestore option \<Rightarrow> firestore option" where
  "db_run [] handle = handle"
| "db_run (c # cs) handle = db_run cs (db_step c handle)"

section \<open>Properties\<close>

subsection \<open>Reminder times\<close>

lemma of_char_digit_char: "n < 10 \<Longrightarrow> (of_char (digit_char n) :: nat) = 48 + n"
  by (simp add: digit_char_def)

lemma digit_val_digit_char: "n < 10 \<Longrightarrow> digit_val (digit_char n) = n"
  by (simp add: digit_val_def of_char_digit_char)

lemma in_range_digit_char:
  "n < 10 \<Longrightarrow> in_range (digit_char n) lo hi = (lo \<le> n \<and> n \<le> hi)"
  by (simp add: in_range_def of_char_digit_char)

lemma hour_alts_digits:
  assumes "h < 24"
  shows "\<exists>others. hour_alts (digit_char (h div 10) # digit_char (h mod 10) # r) = (h, r) # others"
proof -
  have a: "h div 10 < 10" "h mod 10 < 10" using assms by auto
  show ?thesis
  proof (cases "h div 10 = 2")
    case True
    then have "h mod 10 \<le> 3" "20 + h mod 10 = h" using assms by presburger+
    with True a show ?thesis
      by (simp add: hour_alts_def in_range_digit_char digit_val_digit_char)
  next
    case False
    then have "h div 10 \<le> 1" using assms by presburger
    with False a show ?thesis
      by (simp add: hour_alts_def in_range_digit_char digit_val_digit_char)
  qed
qed

lemma minute_alts_digits:
  assumes "m < 60"
  shows "\<exists>others. minute_alts (digit_char (m div 10) # digit_char (m mod 10) # r) = (m, r) # others"
proof -
  have "m div 10 < 10" "m mod 10 < 10" "m div 10 \<le> 5" using assms by auto
  then show ?thesis
    by (simp add: minute_alts_def in_range_digit_char digit_val_digit_char)
qed

lemma regex_HM_strftime:
  assumes "hour t < 24" "minute t < 60"
  shows "\<exists>others. regex_HM (strftime_HM t) = (hour t, minute t, []) # others"
proof -
  obtain r1 where h: "hour_alts (strftime_HM t) =
      (hour t, [CHR '':'', digit_char (minute t div 10), digit_char (minute t mod 10)]) # r1"
    using hour_alts_digits [OF assms(1)] unfolding strftime_HM_def by blast
  obtain r2 where m: "minute_alts [digit_char (minute t div 10), digit_char (minute t mod 10)] =
      (minute t, []) # r2"
    using minute_alts_digits [OF assms(2)] by blast
  show ?thesis
    by (simp add: regex_HM_def h m)
qed

lemma strptime_strftime:
  assumes "valid_time t"
  shows "strptime_HM (strftime_HM t) = Inr (t\<lparr>second := 0, microsecond := 0\<rparr>)"
proof -
  from assms have "hour t < 24" "minute t < 60" by (simp_all add: valid_time_def)
  from regex_HM_strftime [OF this] obtain others where
    "regex_HM (strftime_HM t) = (hour t, minute t, []) # others" by blast
  then show ?thesis by (simp add: strptime_HM_def)
qed

text \<open>
  Claim C1, as amended: for every reminder time, formatting it with \<open>strftime("%H:%M")\<close>
  and parsing the string back with \<open>strptime(_, "%H:%M").time()\<close> succeeds and yields
  the time with its seconds and microseconds set to zero; so the round trip gives the
  original time back exactly when its seconds and microseconds are zero.
\<close>

theorem reminder_time_round_trip:
  assumes "valid_time t"
  shows "strptime_HM (strftime_HM t) = Inr (t\<lparr>second := 0, microsecond := 0\<rparr>)
       \<and> (strptime_HM (strftime_HM t) = Inr t \<longleftrightarrow> second t = 0 \<and> microsecond t = 0)"
proof -
  have "(t\<lparr>second := 0, microsecond := 0\<rparr> = t) = (second t = 0 \<and> microsecond t = 0)"
    by (cases t) auto
  then show ?thesis
    using strptime_strftime [OF assms] by auto
qed

theorem reminder_time_round_trip_witness:
  "strptime_HM (strftime_HM \<lparr>hour = 21, minute = 5, second = 0, microsecond = 0\<rparr>)
     = Inr \<lparr>hour = 21, minute = 5, second = 0, microsecond = 0\<rparr>"
  using reminder_time_round_trip [of "\<lparr>hour = 21, minute = 5, second = 0, microsecond = 0\<rparr>"]
  by (simp add: valid_time_def)

text \<open>
  Claim C1 as stated fails: the time 09:30:45 is stored as \<open>09:30\<close> and read back as
  09:30:00.
\<close>

theorem reminder_time_seconds_lost:
  "valid_time \<lparr>hour = 9, minute = 30, second = 45, microsecond = 0\<rparr>
   \<and> strptime_HM (strftime_HM \<lparr>hour = 9, minute = 30, second = 45, microsecond = 0\<rparr>)
       = Inr \<lparr>hour = 9, minute = 30, second = 0, microsecond = 0\<rparr>
   \<and> strptime_HM (strftime_HM \<lparr>hour = 9, minute = 30, second = 45, microsecond = 0\<rparr>)
       \<noteq> Inr \<lparr>hour = 9, minute = 30, second = 45, microsecond = 0\<rparr>"
  by (simp add: valid_time_def strptime_strftime)

subsection \<open>The reminder list\<close>

lemma reminder_keys_Inr:
  "reminder_keys xs = Inr ks \<Longrightarrow> map reminder_key xs = map Inr ks"
  by (induction xs arbitrary: ks) (auto split: sum.splits)

lemma reminder_keys_total:
  "\<forall>x\<in>set xs. \<exists>k. reminder_key x = Inr k \<Longrightarrow> \<exists>ks. reminder_keys xs = Inr ks"
  by (induction xs) (auto split: sum.splits)

lemma display_data_Inr:
  "display_data xs acc = Inr rows \<Longrightarrow>
     \<exists>new. rows = acc @ new \<and> map display_row xs = map Inr new"
proof (induction xs arbitrary: acc)
  case Nil
  then show ?case by simp
next
  case (Cons x xs)
  from Cons.prems obtain r where r: "display_row x = Inr r"
    and rest: "display_data xs (acc @ [r]) = Inr rows"
    by (auto split: sum.splits)
  from Cons.IH [OF rest] obtain new where
    "rows = (acc @ [r]) @ new" "map display_row xs = map Inr new" by blast
  then have "rows = acc @ (r # new) \<and> map display_row (x # xs) = map Inr (r # new)"
    using r by simp
  then show ?case by blast
qed

lemma display_data_total:
  "\<forall>x\<in>set xs. \<exists>r. display_row x = Inr r \<Longrightarrow> \<exists>rows. display_data xs acc = Inr rows"
  by (induction xs arbitrary: acc) (auto split: sum.splits)

lemma sorted_reminders_Inr:
  assumes "sorted_reminders xs = Inr srt"
  shows "\<exists>ks. mset srt = mset xs \<and> map reminder_key srt = map Inr ks
              \<and> sorted (map time_tuple ks)"
proof -
  from assms obtain ks0 where ks0: "reminder_keys xs = Inr ks0"
    and srt: "srt = map snd (sort_key (\<lambda>p. time_tuple (fst p)) (zip ks0 xs))"
    by (auto simp: sorted_reminders_def split: sum.splits)
  let ?ps = "sort_key (\<lambda>p. time_tuple (fst p)) (zip ks0 xs)"
  have m: "map reminder_key xs = map Inr ks0" by (rule reminder_keys_Inr [OF ks0])
  then have len: "length ks0 = length xs" by (metis length_map)
  have "\<forall>p\<in>set (zip ks0 xs). reminder_key (snd p) = Inr (fst p)"
  proof
    fix p assume "p \<in> set (zip ks0 xs)"
    then obtain i where i: "i < length xs" "p = (ks0 ! i, xs ! i)"
      using len by (auto simp: set_zip)
    from m i(1) len have "map reminder_key xs ! i = map Inr ks0 ! i" by simp
    with i len show "reminder_key (snd p) = Inr (fst p)" by simp
  qed
  then have "\<forall>p\<in>set ?ps. reminder_key (snd p) = Inr (fst p)" by simp
  then have k: "map reminder_key srt = map Inr (map fst ?ps)"
    unfolding srt by (induction ?ps) auto
  have "mset srt = image_mset snd (mset (zip ks0 xs))"
    unfolding srt by simp
  also have "\<dots> = mset (map snd (zip ks0 xs))" by simp
  also have "\<dots> = mset xs" using len by simp
  finally have p: "mset srt = mset xs" .
  have "sorted (map (\<lambda>p. time_tuple (fst p)) ?ps)" by (rule sorted_sort_key)
  then have s: "sorted (map time_tuple (map fst ?ps))" by (simp add: comp_def)
  from p k s show ?thesis by blast
qed


text \<open>
  Claim C2, as amended: for every non-empty list of reminders in which each record has a
  \<open>time\<close> string that parses as \<open>HH:MM\<close> and the keys \<open>medicine_name\<close> and
  \<open>dosage\<close>, the list display renders one table whose rows are the rows of a
  permutation of the list, arranged in ascending order of the parsed times.
\<close>

theorem reminders_render_sorted_by_time:
  assumes "user_reminders \<noteq> []"
    and "\<forall>x\<in>set user_reminders. (\<exists>k. reminder_key x = Inr k) \<and> (\<exists>r. display_row x = Inr r)"
  shows "\<exists>srt ks rows.
           saved_reminders user_reminders = Inr [Table rows]
         \<and> map display_row srt = map Inr rows
         \<and> mset srt = mset user_reminders
         \<and> map reminder_key srt = map Inr ks
         \<and> sorted (map time_tuple ks)"
proof -
  from assms(2) have "\<exists>ks. reminder_keys user_reminders = Inr ks"
    by (intro reminder_keys_total) blast
  then obtain srt where srt: "sorted_reminders user_reminders = Inr srt"
    by (auto simp: sorted_reminders_def)
  from sorted_reminders_Inr [OF srt] obtain ks where
    p: "mset srt = mset user_reminders" and k: "map reminder_key srt = map Inr ks"
    and s: "sorted (map time_tuple ks)" by blast
  from p have "set srt = set user_reminders" by (rule mset_eq_setD)
  with assms(2) have "\<forall>x\<in>set srt. \<exists>r. display_row x = Inr r" by blast
  from display_data_total [OF this] obtain rows where rows: "display_data srt [] = Inr rows"
    by blast
  from display_data_Inr [OF rows] have r: "map display_row srt = map Inr rows" by simp
  have "saved_reminders user_reminders = Inr [Table rows]"
    using assms(1) srt rows by (simp add: saved_reminders_def)
  with r p k s show ?thesis by blast
qed

theorem reminders_render_sorted_by_time_witness:
  "\<exists>srt ks rows.
     saved_reminders
       [[''medicine_name'' \<mapsto> FStr ''Aspirin'', ''dosage'' \<mapsto> FStr ''1 tablet'',
         ''time'' \<mapsto> FStr ''21:05''],
        [''medicine_name'' \<mapsto> FStr ''Syrup'', ''dosage'' \<mapsto> FStr ''5ml'',
         ''time'' \<mapsto> FStr ''08:30'']]
       = Inr [Table rows]
   \<and> map display_row srt = map Inr rows
   \<and> mset srt =
       mset [[''medicine_name'' \<mapsto> FStr ''Aspirin'', ''dosage'' \<mapsto> FStr ''1 tablet'',
              ''time'' \<mapsto> FStr ''21:05''],
             [''medicine_name'' \<mapsto> FStr ''Syrup'', ''dosage'' \<mapsto> FStr ''5ml'',
              ''time'' \<mapsto> FStr ''08:30'']]
   \<and> map reminder_key srt = map Inr ks
   \<and> sorted (map time_tuple ks)"
  by (rule reminders_render_sorted_by_time)
     (simp_all add: reminder_key_def display_row_def strptime_HM_def regex_HM_def
        hour_alts_def minute_alts_def in_range_def digit_val_def)

text \<open>
  Claim C2 as stated fails on a list with a record whose \<open>time\<close> is not a time of day:
  the sort key raises \<open>ValueError\<close> and no table is rendered.
\<close>

theorem reminders_render_unparsable_time:
  "saved_reminders
     [[''medicine_name'' \<mapsto> FStr ''Aspirin'', ''dosage'' \<mapsto> FStr ''1 tablet'',
       ''time'' \<mapsto> FStr ''25:00'']]
   = Inl ValueError"
  by (simp add: saved_reminders_def sorted_reminders_def reminder_key_def strptime_HM_def
        regex_HM_def hour_alts_def minute_alts_def in_range_def digit_val_def)

subsection \<open>The reminder functions\<close>

lemma resolve_reminder_data:
  "resolve now (reminder_data user_id medicine_name dosage reminder_time_str) =
     [''user_id'' \<mapsto> FStr user_id, ''medicine_name'' \<mapsto> FStr medicine_name,
      ''dosage'' \<mapsto> FStr dosage, ''time'' \<mapsto> FStr reminder_time_str,
      ''created_at'' \<mapsto> FTimestamp now]"
  by (rule ext) (simp add: resolve_def reminder_data_def)

lemma dom_resolve_reminder_data:
  "dom (resolve now (reminder_data user_id medicine_name dosage reminder_time_str)) =
     {''user_id'', ''medicine_name'', ''dosage'', ''time'', ''created_at''}"
  unfolding resolve_reminder_data by auto

lemma add_reminder_None:
  "add_reminder_to_firestore None reply user_id medicine_name dosage reminder_time_str =
     (False, [Error [Lit ''Firestore is not initialized. Cannot add reminder.'']], None)"
  by (simp add: add_reminder_to_firestore_def)

lemma add_reminder_raises:
  "add_reminder_to_firestore (Some store) (Add_raises e) user_id medicine_name dosage
       reminder_time_str =
     (False, [Error [Lit ''Error adding reminder to Firestore: '', Str_exn e]], Some store)"
  by (simp add: add_reminder_to_firestore_def collection_add_def)

lemma add_reminder_committed:
  "add_reminder_to_firestore (Some store) (Committed now) user_id medicine_name dosage
       reminder_time_str =
     (True, [],
      Some (store(''reminders'' := store ''reminders'' @
              [resolve now (reminder_data user_id medicine_name dosage reminder_time_str)])))"
  by (simp add: add_reminder_to_firestore_def collection_add_def)

lemma get_reminders_None:
  "get_reminders_from_firestore None reply user_id =
     ([], [Error [Lit ''Firestore is not initialized. Cannot retrieve reminders.'']])"
  by (simp add: get_reminders_from_firestore_def)

lemma get_reminders_raises:
  "get_reminders_from_firestore (Some store) (Stream_raises e) user_id =
     ([], [Error [Lit ''Error fetching reminders from Firestore: '', Str_exn e]])"
  by (simp add: get_reminders_from_firestore_def where_order_by_stream_def)

lemma get_reminders_streams:
  "get_reminders_from_firestore (Some store) Streams user_id =
     (sort_key (\<lambda>d. order_key (d ''created_at''))
        (filter (\<lambda>d. d ''user_id'' = Some (FStr user_id) \<and> d ''created_at'' \<noteq> None)
           (store ''reminders'')), [])"
  by (simp add: get_reminders_from_firestore_def where_order_by_stream_def)

lemma strftime_HM_length: "length (strftime_HM t) = 5"
  by (simp add: strftime_HM_def)

lemma store_upd_neq: "store(c := store c @ [d]) \<noteq> store"
proof
  assume "store(c := store c @ [d]) = store"
  then have "(store(c := store c @ [d])) c = store c" by simp
  then show False by simp
qed


text \<open>
  Claim C4, as amended: every reminder document written by the add action (the form, with
  a time of day from the time widget) is one new document of the collection
  \<open>reminders\<close> with exactly the fields \<open>user_id\<close>, \<open>medicine_name\<close>,
  \<open>dosage\<close>, \<open>time\<close> and \<open>created_at\<close>: the three strings given, the time as
  the five characters \<open>HH:MM\<close> that parse back to its hour and minute, and the commit
  time of the server. The session identifier is stored under the field name
  \<open>user_id\<close>.
\<close>

theorem reminder_document_fields:
  assumes "valid_time reminder_time"
    and "medicine_reminder_form handle reply user_id submit_reminder medicine_name dosage
           reminder_time = (msgs, handle')"
    and "handle' \<noteq> handle"
  shows "\<exists>store now doc.
           handle = Some store \<and> reply = Committed now
         \<and> handle' = Some (store(''reminders'' := store ''reminders'' @ [doc]))
         \<and> dom doc = {''user_id'', ''medicine_name'', ''dosage'', ''time'', ''created_at''}
         \<and> doc ''user_id'' = Some (FStr user_id)
         \<and> doc ''medicine_name'' = Some (FStr medicine_name)
         \<and> doc ''dosage'' = Some (FStr dosage)
         \<and> doc ''time'' = Some (FStr (strftime_HM reminder_time))
         \<and> length (strftime_HM reminder_time) = 5
         \<and> strptime_HM (strftime_HM reminder_time)
             = Inr (reminder_time\<lparr>second := 0, microsecond := 0\<rparr>)
         \<and> doc ''created_at'' = Some (FTimestamp now)"
proof -
  let ?s = "strftime_HM reminder_time"
  from assms(2,3) have wr: "submit_reminder" "medicine_name \<noteq> []" "dosage \<noteq> []"
    by (auto simp: medicine_reminder_form_def Let_def split: if_splits)
  from assms(2,3) wr obtain store where h: "handle = Some store"
    by (cases handle) (auto simp: medicine_reminder_form_def Let_def add_reminder_None)
  from assms(2,3) wr h obtain now where r: "reply = Committed now"
    by (cases reply) (auto simp: medicine_reminder_form_def Let_def add_reminder_raises)
  let ?doc = "resolve now (reminder_data user_id medicine_name dosage ?s)"
  from assms(2) wr h r
  have h': "handle' = Some (store(''reminders'' := store ''reminders'' @ [?doc]))"
    by (simp add: medicine_reminder_form_def Let_def add_reminder_committed)
  have d: "dom ?doc = {''user_id'', ''medicine_name'', ''dosage'', ''time'', ''created_at''}"
    by (rule dom_resolve_reminder_data)
  have f: "?doc ''user_id'' = Some (FStr user_id)"
    "?doc ''medicine_name'' = Some (FStr medicine_name)"
    "?doc ''dosage'' = Some (FStr dosage)"
    "?doc ''time'' = Some (FStr ?s)"
    "?doc ''created_at'' = Some (FTimestamp now)"
    by (simp_all add: resolve_reminder_data)
  from h r h' d f strftime_HM_length [of reminder_time] strptime_strftime [OF assms(1)]
  show ?thesis by blast
qed


theorem reminder_document_fields_witness:
  "\<exists>doc.
     snd (medicine_reminder_form (Some (\<lambda>c. [])) (Committed 7) ''user_1'' True ''Aspirin''
            ''1 tablet'' \<lparr>hour = 9, minute = 30, second = 45, microsecond = 0\<rparr>)
       = Some ((\<lambda>c. [])(''reminders'' := [doc]))
   \<and> dom doc = {''user_id'', ''medicine_name'', ''dosage'', ''time'', ''created_at''}
   \<and> doc ''user_id'' = Some (FStr ''user_1'')
   \<and> doc ''time'' = Some (FStr ''09:30'')
   \<and> doc ''created_at'' = Some (FTimestamp 7)"
proof -
  let ?t = "\<lparr>hour = 9, minute = 30, second = 45, microsecond = 0\<rparr>"
  let ?f = "medicine_reminder_form (Some (\<lambda>c. [])) (Committed 7) ''user_1'' True ''Aspirin''
              ''1 tablet'' ?t"
  have v: "valid_time ?t" by (simp add: valid_time_def)
  have e: "?f = (fst ?f, snd ?f)" by simp
  have "snd ?f = Some ((\<lambda>c. [])(''reminders'' := (\<lambda>c. []) ''reminders'' @
          [resolve 7 (reminder_data ''user_1'' ''Aspirin'' ''1 tablet'' (strftime_HM ?t))]))"
    by (simp add: medicine_reminder_form_def Let_def add_reminder_committed)
  then have n: "snd ?f \<noteq> Some (\<lambda>c. [])"
    using store_upd_neq [of "\<lambda>c. []" "''reminders''"] by simp
  have s: "strftime_HM ?t = ''09:30''"
    by code_simp
  from reminder_document_fields [OF v e n] show ?thesis
    unfolding s by auto
qed

text \<open>
  Claim C4 as stated fails: the document written has no field \<open>session_id\<close>; the
  session identifier is the value of \<open>user_id\<close>.
\<close>

theorem reminder_document_no_session_id:
  "add_reminder_to_firestore (Some (\<lambda>c. [])) (Committed 7) ''user_1'' ''Aspirin'' ''1 tablet''
       ''09:30''
     = (True, [],
        Some ((\<lambda>c. [])(''reminders'' :=
          [[''user_id'' \<mapsto> FStr ''user_1'', ''medicine_name'' \<mapsto> FStr ''Aspirin'',
            ''dosage'' \<mapsto> FStr ''1 tablet'', ''time'' \<mapsto> FStr ''09:30'',
            ''created_at'' \<mapsto> FTimestamp 7]])))
   \<and> [''user_id'' \<mapsto> FStr ''user_1'', ''medicine_name'' \<mapsto> FStr ''Aspirin'',
       ''dosage'' \<mapsto> FStr ''1 tablet'', ''time'' \<mapsto> FStr ''09:30'',
       ''created_at'' \<mapsto> FTimestamp 7] ''session_id'' = None"
  by (simp add: add_reminder_committed resolve_reminder_data)

text \<open>
  Claim C10: \<open>add_reminder_to_firestore\<close> returns \<open>True\<close> exactly when there is a
  database handle and the write succeeded; without a handle and when the write raises it
  returns \<open>False\<close> and the store is as before; on success the store has the one new
  document. \<open>get_reminders_from_firestore\<close> returns a list in every case, the empty
  list when there is no handle and when the query raises.
\<close>

theorem reminder_functions_status:
  "fst (add_reminder_to_firestore handle reply user_id medicine_name dosage reminder_time_str)
     = (\<exists>store now. handle = Some store \<and> reply = Committed now)
   \<and> snd (snd (add_reminder_to_firestore handle reply user_id medicine_name dosage
                  reminder_time_str))
     = (case handle of
          None \<Rightarrow> None
        | Some store \<Rightarrow>
            (case reply of
               Add_raises e \<Rightarrow> Some store
             | Committed now \<Rightarrow>
                 Some (store(''reminders'' := store ''reminders'' @
                   [resolve now (reminder_data user_id medicine_name dosage
                      reminder_time_str)]))))
   \<and> get_reminders_from_firestore None query_reply user_id
     = ([], [Error [Lit ''Firestore is not initialized. Cannot retrieve reminders.'']])
   \<and> get_reminders_from_firestore (Some store0) (Stream_raises e0) user_id
     = ([], [Error [Lit ''Error fetching reminders from Firestore: '', Str_exn e0]])"
proof -
  have "fst (add_reminder_to_firestore handle reply user_id medicine_name dosage
               reminder_time_str)
          = (\<exists>store now. handle = Some store \<and> reply = Committed now)"
    by (cases handle; cases reply)
       (simp_all add: add_reminder_None add_reminder_raises add_reminder_committed)
  moreover have "snd (snd (add_reminder_to_firestore handle reply user_id medicine_name dosage
                  reminder_time_str))
     = (case handle of
          None \<Rightarrow> None
        | Some store \<Rightarrow>
            (case reply of
               Add_raises e \<Rightarrow> Some store
             | Committed now \<Rightarrow>
                 Some (store(''reminders'' := store ''reminders'' @
                   [resolve now (reminder_data user_id medicine_name dosage
                      reminder_time_str)]))))"
    by (cases handle; cases reply)
       (simp_all add: add_reminder_None add_reminder_raises add_reminder_committed)
  ultimately show ?thesis
    by (simp only: get_reminders_None get_reminders_raises simp_thms)
qed

theorem reminder_functions_status_witness:
  "\<not> fst (add_reminder_to_firestore (Some (\<lambda>c. [])) (Add_raises (Exception ''unavailable''))
            ''user_1'' ''Aspirin'' ''1 tablet'' ''09:30'')
   \<and> snd (snd (add_reminder_to_firestore (Some (\<lambda>c. []))
                  (Add_raises (Exception ''unavailable''))
                  ''user_1'' ''Aspirin'' ''1 tablet'' ''09:30''))
     = Some (\<lambda>c. [])
   \<and> get_reminders_from_firestore (Some (\<lambda>c. [])) (Stream_raises (Exception ''index''))
        ''user_1''
     = ([], [Error [Lit ''Error fetching reminders from Firestore: '',
                    Str_exn (Exception ''index'')]])"
  using reminder_functions_status [of "Some (\<lambda>c. [])" "Add_raises (Exception ''unavailable'')"
      "''user_1''" "''Aspirin''" "''1 tablet''" "''09:30''" Streams "\<lambda>c. []"
      "Exception ''index''"]
  by simp

subsection \<open>The query\<close>

lemma filter_has_created_at:
  assumes "\<forall>d\<in>set xs. \<exists>t. d ''created_at'' = Some (FTimestamp t)"
  shows "filter (\<lambda>d. d ''user_id'' = Some (FStr user_id) \<and> d ''created_at'' \<noteq> None) xs
           = filter (\<lambda>d. d ''user_id'' = Some (FStr user_id)) xs"
  using assms by (intro filter_cong) auto

lemma order_key_timestamps:
  "order_key (Some (FTimestamp a)) \<le> order_key (Some (FTimestamp b)) \<longleftrightarrow> a \<le> b"
  by (auto simp: less_eq_prod_def)

lemma timestamps_sorted:
  assumes "\<forall>d\<in>set docs. \<exists>t. d ''created_at'' = Some (FTimestamp t)"
    and "sorted (map (\<lambda>d. order_key (d ''created_at'')) docs)"
  shows "\<exists>ts. map (\<lambda>d. d ''created_at'') docs = map (\<lambda>t. Some (FTimestamp t)) ts \<and> sorted ts"
  using assms
proof (induction docs)
  case Nil
  then show ?case by simp
next
  case (Cons d docs)
  from Cons.prems(1) obtain t where t: "d ''created_at'' = Some (FTimestamp t)" by auto
  from Cons.prems have "\<exists>ts. map (\<lambda>d. d ''created_at'') docs = map (\<lambda>t. Some (FTimestamp t)) ts
      \<and> sorted ts"
    by (intro Cons.IH) auto
  then obtain ts where ts: "map (\<lambda>d. d ''created_at'') docs = map (\<lambda>t. Some (FTimestamp t)) ts"
    and s: "sorted ts" by blast
  have "\<forall>u\<in>set ts. t \<le> u"
  proof
    fix u assume "u \<in> set ts"
    then have "Some (FTimestamp u) \<in> set (map (\<lambda>d. d ''created_at'') docs)"
      unfolding ts by simp
    then obtain d' where d': "d' \<in> set docs" "d' ''created_at'' = Some (FTimestamp u)"
      by auto
    with Cons.prems(2) have "order_key (d ''created_at'') \<le> order_key (d' ''created_at'')"
      by auto
    then show "t \<le> u" unfolding t d'(2) order_key_timestamps .
  qed
  with s have "sorted (t # ts)" by simp
  moreover have "map (\<lambda>d. d ''created_at'') (d # docs) = map (\<lambda>t. Some (FTimestamp t)) (t # ts)"
    using t ts by simp
  ultimately show ?case by blast
qed

text \<open>
  Claim C9, as amended: for every user identifier, \<open>get_reminders_from_firestore\<close>
  queries the collection \<open>reminders\<close> and returns exactly the documents whose
  \<open>user_id\<close> field equals the identifier and that have a \<open>created_at\<close> field, in
  ascending order of \<open>created_at\<close>. When every document of the collection carries a
  \<open>created_at\<close> server timestamp, these are all the documents with that \<open>user_id\<close>,
  in ascending order of their timestamps. The add action stores into the same
  collection, so that a reminder added under an identifier is among those listed for it.
\<close>

theorem reminders_query_by_user_ordered:
  "(\<exists>docs.
      get_reminders_from_firestore (Some store) Streams user_id = (docs, [])
    \<and> mset docs
        = mset (filter (\<lambda>d. d ''user_id'' = Some (FStr user_id) \<and> d ''created_at'' \<noteq> None)
                  (store ''reminders''))
    \<and> sorted (map (\<lambda>d. order_key (d ''created_at'')) docs)
    \<and> ((\<forall>d\<in>set (store ''reminders''). \<exists>t. d ''created_at'' = Some (FTimestamp t)) \<longrightarrow>
          mset docs
            = mset (filter (\<lambda>d. d ''user_id'' = Some (FStr user_id)) (store ''reminders''))
        \<and> (\<exists>ts. map (\<lambda>d. d ''created_at'') docs = map (\<lambda>t. Some (FTimestamp t)) ts
                \<and> sorted ts)))
   \<and> (\<exists>doc docs'.
      add_reminder_to_firestore (Some store) (Committed now) user_id medicine_name dosage
          reminder_time_str
        = (True, [], Some (store(''reminders'' := store ''reminders'' @ [doc])))
    \<and> doc ''user_id'' = Some (FStr user_id)
    \<and> get_reminders_from_firestore
          (Some (store(''reminders'' := store ''reminders'' @ [doc]))) Streams user_id
        = (docs', [])
    \<and> doc \<in> set docs')"
proof
  let ?docs = "sort_key (\<lambda>d. order_key (d ''created_at''))
                 (filter (\<lambda>d. d ''user_id'' = Some (FStr user_id) \<and> d ''created_at'' \<noteq> None)
                    (store ''reminders''))"
  have g: "get_reminders_from_firestore (Some store) Streams user_id = (?docs, [])"
    by (simp add: get_reminders_from_firestore_def where_order_by_stream_def)
  have m: "mset ?docs
        = mset (filter (\<lambda>d. d ''user_id'' = Some (FStr user_id) \<and> d ''created_at'' \<noteq> None)
                  (store ''reminders''))"
    by (rule mset_sort)
  have s: "sorted (map (\<lambda>d. order_key (d ''created_at'')) ?docs)"
    by (rule sorted_sort_key)
  have t: "mset ?docs
            = mset (filter (\<lambda>d. d ''user_id'' = Some (FStr user_id)) (store ''reminders''))
        \<and> (\<exists>ts. map (\<lambda>d. d ''created_at'') ?docs = map (\<lambda>t. Some (FTimestamp t)) ts
                \<and> sorted ts)"
    if all: "\<forall>d\<in>set (store ''reminders''). \<exists>t. d ''created_at'' = Some (FTimestamp t)"
  proof -
    have f: "filter (\<lambda>d. d ''user_id'' = Some (FStr user_id) \<and> d ''created_at'' \<noteq> None)
               (store ''reminders'')
             = filter (\<lambda>d. d ''user_id'' = Some (FStr user_id)) (store ''reminders'')"
      by (rule filter_has_created_at [OF all])
    have a: "\<forall>d\<in>set ?docs. \<exists>t. d ''created_at'' = Some (FTimestamp t)"
      using all by auto
    from m have "mset ?docs
        = mset (filter (\<lambda>d. d ''user_id'' = Some (FStr user_id)) (store ''reminders''))"
      unfolding f .
    moreover note timestamps_sorted [OF a s]
    ultimately show ?thesis ..
  qed
  from g m s t show "\<exists>docs.
      get_reminders_from_firestore (Some store) Streams user_id = (docs, [])
    \<and> mset docs
        = mset (filter (\<lambda>d. d ''user_id'' = Some (FStr user_id) \<and> d ''created_at'' \<noteq> None)
                  (store ''reminders''))
    \<and> sorted (map (\<lambda>d. order_key (d ''created_at'')) docs)
    \<and> ((\<forall>d\<in>set (store ''reminders''). \<exists>t. d ''created_at'' = Some (FTimestamp t)) \<longrightarrow>
          mset docs
            = mset (filter (\<lambda>d. d ''user_id'' = Some (FStr user_id)) (store ''reminders''))
        \<and> (\<exists>ts. map (\<lambda>d. d ''created_at'') docs = map (\<lambda>t. Some (FTimestamp t)) ts
                \<and> sorted ts))"
    by blast
next
  let ?doc = "resolve now (reminder_data user_id medicine_name dosage reminder_time_str)"
  let ?store' = "store(''reminders'' := store ''reminders'' @ [?doc])"
  have u: "?doc ''user_id'' = Some (FStr user_id)" "?doc ''created_at'' \<noteq> None"
    by (simp_all add: resolve_def reminder_data_def)
  have ad: "add_reminder_to_firestore (Some store) (Committed now) user_id medicine_name dosage
          reminder_time_str = (True, [], Some ?store')"
    by (simp add: add_reminder_to_firestore_def collection_add_def)
  have "get_reminders_from_firestore (Some ?store') Streams user_id
          = (fst (get_reminders_from_firestore (Some ?store') Streams user_id), [])"
    by (simp add: get_reminders_from_firestore_def where_order_by_stream_def)
  moreover have "?doc \<in> set (fst (get_reminders_from_firestore (Some ?store') Streams user_id))"
    using u by (simp add: get_reminders_from_firestore_def where_order_by_stream_def)
  ultimately show "\<exists>doc docs'.
      add_reminder_to_firestore (Some store) (Committed now) user_id medicine_name dosage
          reminder_time_str
        = (True, [], Some (store(''reminders'' := store ''reminders'' @ [doc])))
    \<and> doc ''user_id'' = Some (FStr user_id)
    \<and> get_reminders_from_firestore
          (Some (store(''reminders'' := store ''reminders'' @ [doc]))) Streams user_id
        = (docs', [])
    \<and> doc \<in> set docs'"
    using u(1) ad by blast
qed

theorem reminders_query_by_user_ordered_witness:
  "\<exists>docs ts.
     get_reminders_from_firestore
       (Some ((\<lambda>c. [])(''reminders'' :=
          [[''user_id'' \<mapsto> FStr ''user_1'', ''time'' \<mapsto> FStr ''21:05'',
            ''created_at'' \<mapsto> FTimestamp 5],
           [''user_id'' \<mapsto> FStr ''user_2'', ''time'' \<mapsto> FStr ''07:00'',
            ''created_at'' \<mapsto> FTimestamp 4],
           [''user_id'' \<mapsto> FStr ''user_1'', ''time'' \<mapsto> FStr ''08:30'',
            ''created_at'' \<mapsto> FTimestamp 3]])))
       Streams ''user_1'' = (docs, [])
   \<and> mset docs
       = mset [[''user_id'' \<mapsto> FStr ''user_1'', ''time'' \<mapsto> FStr ''21:05'',
                ''created_at'' \<mapsto> FTimestamp 5],
               [''user_id'' \<mapsto> FStr ''user_1'', ''time'' \<mapsto> FStr ''08:30'',
                ''created_at'' \<mapsto> FTimestamp 3]]
   \<and> map (\<lambda>d. d ''created_at'') docs = map (\<lambda>t. Some (FTimestamp t)) ts
   \<and> sorted ts"
proof -
  have all: "\<forall>d\<in>set (((\<lambda>c. [])(''reminders'' :=
          [[''user_id'' \<mapsto> FStr ''user_1'', ''time'' \<mapsto> FStr ''21:05'',
            ''created_at'' \<mapsto> FTimestamp 5],
           [''user_id'' \<mapsto> FStr ''user_2'', ''time'' \<mapsto> FStr ''07:00'',
            ''created_at'' \<mapsto> FTimestamp 4],
           [''user_id'' \<mapsto> FStr ''user_1'', ''time'' \<mapsto> FStr ''08:30'',
            ''created_at'' \<mapsto> FTimestamp 3]])) ''reminders''). \<exists>t. d ''created_at'' = Some (FTimestamp t)"
    by simp
  have f: "filter (\<lambda>d. d ''user_id'' = Some (FStr ''user_1'')) (((\<lambda>c. [])(''reminders'' :=
          [[''user_id'' \<mapsto> FStr ''user_1'', ''time'' \<mapsto> FStr ''21:05'',
            ''created_at'' \<mapsto> FTimestamp 5],
           [''user_id'' \<mapsto> FStr ''user_2'', ''time'' \<mapsto> FStr ''07:00'',
            ''created_at'' \<mapsto> FTimestamp 4],
           [''user_id'' \<mapsto> FStr ''user_1'', ''time'' \<mapsto> FStr ''08:30'',
            ''created_at'' \<mapsto> FTimestamp 3]])) ''reminders'')
      = [[''user_id'' \<mapsto> FStr ''user_1'', ''time'' \<mapsto> FStr ''21:05'',
          ''created_at'' \<mapsto> FTimestamp 5],
         [''user_id'' \<mapsto> FStr ''user_1'', ''time'' \<mapsto> FStr ''08:30'',
          ''created_at'' \<mapsto> FTimestamp 3]]"
    by simp
  from reminders_query_by_user_ordered [THEN conjunct1, of "((\<lambda>c. [])(''reminders'' :=
          [[''user_id'' \<mapsto> FStr ''user_1'', ''time'' \<mapsto> FStr ''21:05'',
            ''created_at'' \<mapsto> FTimestamp 5],
           [''user_id'' \<mapsto> FStr ''user_2'', ''time'' \<mapsto> FStr ''07:00'',
            ''created_at'' \<mapsto> FTimestamp 4],
           [''user_id'' \<mapsto> FStr ''user_1'', ''time'' \<mapsto> FStr ''08:30'',
            ''created_at'' \<mapsto> FTimestamp 3]]))" "''user_1''"]
  obtain docs where g: "get_reminders_from_firestore (Some ((\<lambda>c. [])(''reminders'' :=
          [[''user_id'' \<mapsto> FStr ''user_1'', ''time'' \<mapsto> FStr ''21:05'',
            ''created_at'' \<mapsto> FTimestamp 5],
           [''user_id'' \<mapsto> FStr ''user_2'', ''time'' \<mapsto> FStr ''07:00'',
            ''created_at'' \<mapsto> FTimestamp 4],
           [''user_id'' \<mapsto> FStr ''user_1'', ''time'' \<mapsto> FStr ''08:30'',
            ''created_at'' \<mapsto> FTimestamp 3]]))) Streams ''user_1'' = (docs, [])"
    and m: "mset docs
        = mset (filter (\<lambda>d. d ''user_id'' = Some (FStr ''user_1'') \<and> d ''created_at'' \<noteq> None)
                  (((\<lambda>c. [])(''reminders'' :=
          [[''user_id'' \<mapsto> FStr ''user_1'', ''time'' \<mapsto> FStr ''21:05'',
            ''created_at'' \<mapsto> FTimestamp 5],
           [''user_id'' \<mapsto> FStr ''user_2'', ''time'' \<mapsto> FStr ''07:00'',
            ''created_at'' \<mapsto> FTimestamp 4],
           [''user_id'' \<mapsto> FStr ''user_1'', ''time'' \<mapsto> FStr ''08:30'',
            ''created_at'' \<mapsto> FTimestamp 3]])) ''reminders''))"
    and s: "sorted (map (\<lambda>d. order_key (d ''created_at'')) docs)"
    and i: "(\<forall>d\<in>set (((\<lambda>c. [])(''reminders'' :=
          [[''user_id'' \<mapsto> FStr ''user_1'', ''time'' \<mapsto> FStr ''21:05'',
            ''created_at'' \<mapsto> FTimestamp 5],
           [''user_id'' \<mapsto> FStr ''user_2'', ''time'' \<mapsto> FStr ''07:00'',
            ''created_at'' \<mapsto> FTimestamp 4],
           [''user_id'' \<mapsto> FStr ''user_1'', ''time'' \<mapsto> FStr ''08:30'',
            ''created_at'' \<mapsto> FTimestamp 3]])) ''reminders''). \<exists>t. d ''created_at'' = Some (FTimestamp t)) \<longrightarrow>
          mset docs = mset (filter (\<lambda>d. d ''user_id'' = Some (FStr ''user_1''))
                              (((\<lambda>c. [])(''reminders'' :=
          [[''user_id'' \<mapsto> FStr ''user_1'', ''time'' \<mapsto> FStr ''21:05'',
            ''created_at'' \<mapsto> FTimestamp 5],
           [''user_id'' \<mapsto> FStr ''user_2'', ''time'' \<mapsto> FStr ''07:00'',
            ''created_at'' \<mapsto> FTimestamp 4],
           [''user_id'' \<mapsto> FStr ''user_1'', ''time'' \<mapsto> FStr ''08:30'',
            ''created_at'' \<mapsto> FTimestamp 3]])) ''reminders''))
        \<and> (\<exists>ts. map (\<lambda>d. d ''created_at'') docs = map (\<lambda>t. Some (FTimestamp t)) ts
                \<and> sorted ts)"
    by (elim conjE exE)
  from i all have "mset docs = mset (filter (\<lambda>d. d ''user_id'' = Some (FStr ''user_1''))
                              (((\<lambda>c. [])(''reminders'' :=
          [[''user_id'' \<mapsto> FStr ''user_1'', ''time'' \<mapsto> FStr ''21:05'',
            ''created_at'' \<mapsto> FTimestamp 5],
           [''user_id'' \<mapsto> FStr ''user_2'', ''time'' \<mapsto> FStr ''07:00'',
            ''created_at'' \<mapsto> FTimestamp 4],
           [''user_id'' \<mapsto> FStr ''user_1'', ''time'' \<mapsto> FStr ''08:30'',
            ''created_at'' \<mapsto> FTimestamp 3]])) ''reminders''))
        \<and> (\<exists>ts. map (\<lambda>d. d ''created_at'') docs = map (\<lambda>t. Some (FTimestamp t)) ts
                \<and> sorted ts)" ..
  with g show ?thesis unfolding f by blast
qed

text \<open>
  Claim C9 as stated fails: a stored reminder with the queried \<open>user_id\<close> and no
  \<open>created_at\<close> field is not returned, since ordering by a field leaves out the
  documents without it.
\<close>

theorem reminders_query_drops_undated:
  "[''user_id'' \<mapsto> FStr ''user_1'', ''time'' \<mapsto> FStr ''09:30''] ''user_id''
     = Some (FStr ''user_1'')
   \<and> get_reminders_from_firestore
       (Some ((\<lambda>c. [])(''reminders'' :=
          [[''user_id'' \<mapsto> FStr ''user_1'', ''time'' \<mapsto> FStr ''09:30'']])))
       Streams ''user_1''
     = ([], [])"
  by (simp add: get_reminders_streams)

subsection \<open>Sequences of database operations\<close>

lemma db_step_extends:
  "\<exists>store'. db_step c (Some store) = Some store' \<and> (\<forall>k. \<exists>new. store' k = store k @ new)"
proof (cases c)
  case (Add reply user_id medicine_name dosage reminder_time_str)
  then show ?thesis
    by (cases reply) (simp_all add: add_reminder_raises add_reminder_committed)
next
  case (List_reminders reply user_id)
  then show ?thesis by simp
qed

lemma db_step_None: "db_step c None = None"
  by (cases c) (simp_all add: add_reminder_None)

text \<open>
  Claim C6: after any sequence of the program's database operations, every collection
  still begins with the documents it held before, unchanged and in the same order: the
  add action only appends a document and the list action only reads.
\<close>

theorem reminders_never_updated_or_deleted:
  "(\<exists>store'. db_run calls (Some store) = Some store'
       \<and> (\<forall>k. \<exists>new. store' k = store k @ new))
   \<and> db_run calls None = None"
proof
  show "\<exists>store'. db_run calls (Some store) = Some store'
          \<and> (\<forall>k. \<exists>new. store' k = store k @ new)"
  proof (induction calls arbitrary: store)
    case Nil
    show ?case by simp
  next
    case (Cons c calls)
    from db_step_extends [of c store] obtain s1 where
      s1: "db_step c (Some store) = Some s1" and e1: "\<forall>k. \<exists>new. s1 k = store k @ new"
      by blast
    from Cons.IH [of s1] obtain s2 where
      s2: "db_run calls (Some s1) = Some s2" and e2: "\<forall>k. \<exists>new. s2 k = s1 k @ new"
      by blast
    have "\<forall>k. \<exists>new. s2 k = store k @ new"
    proof
      fix k
      from e1 obtain n1 where "s1 k = store k @ n1" by blast
      moreover from e2 obtain n2 where "s2 k = s1 k @ n2" by blast
      ultimately have "s2 k = store k @ (n1 @ n2)" by simp
      then show "\<exists>new. s2 k = store k @ new" by blast
    qed
    with s1 s2 show ?case by simp
  qed
  show "db_run calls None = None"
    by (induction calls) (simp_all add: db_step_None)
qed

theorem reminders_never_updated_or_deleted_witness:
  "\<exists>store'. db_run [Add (Committed 7) ''user_1'' ''Aspirin'' ''1 tablet'' ''09:30'',
                       List_reminders Streams ''user_1'',
                       Add (Add_raises (Exception ''unavailable'')) ''user_1'' ''Syrup'' ''5ml''
                         ''21:05'']
               (Some (\<lambda>c. [])) = Some store'
     \<and> (\<forall>k. \<exists>new. store' k = [] @ new)"
  using reminders_never_updated_or_deleted
    [of "[Add (Committed 7) ''user_1'' ''Aspirin'' ''1 tablet'' ''09:30'',
          List_reminders Streams ''user_1'',
          Add (Add_raises (Exception ''unavailable'')) ''user_1'' ''Syrup'' ''5ml'' ''21:05'']"
        "\<lambda>c. []"]
  by blast

subsection \<open>The clinic search\<close>

lemma clinic_of_Some:
  assumes "clinic_of place = Inr (Some c)"
  shows "\<exists>d i. place = JDict d
           \<and> map_of d ''name'' = Some (name c) \<and> truthy (name c)
           \<and> map_of d ''formatted_address'' = Some (address c) \<and> truthy (address c)
           \<and> map_of d ''place_id'' = Some i \<and> truthy i
           \<and> rating c = (case map_of d ''rating'' of None \<Rightarrow> JStr ''N/A'' | Some r \<Rightarrow> r)
           \<and> link c = [Lit ''https://www.google.com/maps/search/?api=1&query='',
                        Str_json (name c), Lit '','', Str_json (address c),
                        Lit ''&query_place_id='', Str_json i]"
proof (cases place)
  case (JDict d)
  with assms show ?thesis
    by (auto simp: clinic_of_def Let_def split: if_splits option.splits)
qed (use assms in \<open>simp_all add: clinic_of_def\<close>)

lemma clinic_of_missing:
  assumes "map_of d ''name'' = None \<or> map_of d ''formatted_address'' = None
             \<or> map_of d ''place_id'' = None"
  shows "clinic_of (JDict d) = Inr None"
  using assms by (auto simp: clinic_of_def Let_def)

lemma places_loop_Inr:
  "places_loop places acc = Inr cs \<Longrightarrow>
     \<exists>opts. map clinic_of places = map Inr opts \<and> cs = acc @ List.map_filter id opts"
proof (induction places arbitrary: acc)
  case Nil
  then show ?case by (simp add: List.map_filter_simps)
next
  case (Cons place places)
  from Cons.prems obtain opt where o: "clinic_of place = Inr opt"
    by (auto split: sum.splits)
  show ?case
  proof (cases opt)
    case None
    with Cons.prems o have "places_loop places acc = Inr cs" by simp
    from Cons.IH [OF this] obtain opts where
      "map clinic_of places = map Inr opts" "cs = acc @ List.map_filter id opts" by blast
    with o None have "map clinic_of (place # places) = map Inr (None # opts)
        \<and> cs = acc @ List.map_filter id (None # opts)"
      by (simp add: List.map_filter_simps)
    then show ?thesis by blast
  next
    case (Some c)
    with Cons.prems o have "places_loop places (acc @ [c]) = Inr cs" by simp
    from Cons.IH [OF this] obtain opts where
      "map clinic_of places = map Inr opts" "cs = (acc @ [c]) @ List.map_filter id opts"
      by blast
    with o Some have "map clinic_of (place # places) = map Inr (Some c # opts)
        \<and> cs = acc @ List.map_filter id (Some c # opts)"
      by (simp add: List.map_filter_simps)
    then show ?thesis by blast
  qed
qed


lemma map_filter_id_set: "c \<in> set (List.map_filter id opts) \<longleftrightarrow> Some c \<in> set opts"
  by (induction opts) (auto simp: List.map_filter_simps split: option.splits)

lemma search_places_clinics:
  assumes "search_places requests_get key location = Inr cs" and "cs \<noteq> []"
  shows "\<exists>status data rs.
           requests_get ''https://maps.googleapis.com/maps/api/place/textsearch/json''
             [(''query'', ''clinics or hospitals near '' @ location), (''key'', key)]
             = Response status (Json (JDict data))
         \<and> \<not> (400 \<le> status \<and> status < 600)
         \<and> map_of data ''results'' = Some (JList rs)
         \<and> places_loop (take 5 rs) [] = Inr cs"
proof -
  let ?reply = "requests_get ''https://maps.googleapis.com/maps/api/place/textsearch/json''
             [(''query'', ''clinics or hospitals near '' @ location), (''key'', key)]"
  from assms(1) obtain status b where r: "?reply = Response status b"
    by (cases ?reply) (simp_all add: search_places_def)
  from assms(1) r have st: "\<not> (400 \<le> status \<and> status < 600)"
    by (auto simp: search_places_def raise_for_status_def split: if_splits)
  from assms(1) r have body: "(case b of
        Json_raises e \<Rightarrow> Inl e
      | Json data \<Rightarrow>
          (case py_get data ''results'' JNull of
             Inl e \<Rightarrow> Inl e
           | Inr results \<Rightarrow>
               if truthy results
               then (case slice5 results of
                       Inl e \<Rightarrow> Inl e
                     | Inr places \<Rightarrow> places_loop places [])
               else Inr [])) = Inr cs"
    by (auto simp: search_places_def raise_for_status_def split: if_splits)
  from body obtain data0 where b: "b = Json data0"
    by (cases b) simp_all
  from body b obtain data where d: "data0 = JDict data"
    by (cases data0) simp_all
  let ?results = "case map_of data ''results'' of Some v \<Rightarrow> v | None \<Rightarrow> JNull"
  from body b d assms(2) have t: "truthy ?results"
    and lp: "(case slice5 ?results of Inl e \<Rightarrow> Inl e | Inr places \<Rightarrow> places_loop places [])
               = Inr cs"
    by (auto split: if_splits)
  from t obtain results where res: "map_of data ''results'' = Some results"
    by (cases "map_of data ''results''") simp_all
  with t lp have t': "truthy results"
    and lp': "(case slice5 results of Inl e \<Rightarrow> Inl e | Inr places \<Rightarrow> places_loop places [])
                = Inr cs"
    by simp_all
  have "\<exists>rs. results = JList rs"
  proof (cases results)
    case (JStr s)
    with t' obtain ch s' where "s = ch # s'" by (cases s) simp_all
    with JStr lp' show ?thesis by (simp add: clinic_of_def)
  qed (use lp' in simp_all)
  then obtain rs where "results = JList rs" ..
  with r b d st res lp' show ?thesis by simp
qed

lemma find_nearby_clinics_nonempty:
  assumes "find_nearby_clinics maps_key requests_get location = Inr (cs, msgs)" and "cs \<noteq> []"
  shows "\<exists>key. maps_key = Some key \<and> key \<noteq> [] \<and> msgs = []
           \<and> search_places requests_get key location = Inr cs"
  using assms
  by (auto simp: find_nearby_clinics_def split: option.splits if_splits sum.splits)


text \<open>
  Claim C8: whenever \<open>find_nearby_clinics\<close> returns clinics, the response was a JSON
  object whose \<open>results\<close> is a list, and the clinics are those built from its first
  five entries, in order. Each clinic is a record of \<open>name\<close>, \<open>address\<close>,
  \<open>rating\<close> and \<open>link\<close>: name and address are the \<open>name\<close> and
  \<open>formatted_address\<close> of its entry, the rating is the entry's \<open>rating\<close> or
  \<open>N/A\<close> when the entry has none, and the link is the Google Maps search URL built
  from the name, the address and the \<open>place_id\<close> of the entry. An entry without one
  of the three gives no clinic.
\<close>

theorem clinic_entries:
  assumes "find_nearby_clinics maps_key requests_get location = Inr (clinics, msgs)"
    and "clinics \<noteq> []"
  shows "\<exists>key status data rs opts.
           maps_key = Some key
         \<and> requests_get ''https://maps.googleapis.com/maps/api/place/textsearch/json''
             [(''query'', ''clinics or hospitals near '' @ location), (''key'', key)]
             = Response status (Json (JDict data))
         \<and> map_of data ''results'' = Some (JList rs)
         \<and> map clinic_of (take 5 rs) = map Inr opts
         \<and> clinics = List.map_filter id opts
         \<and> (\<forall>c\<in>set clinics. \<exists>d i.
               JDict d \<in> set (take 5 rs)
             \<and> map_of d ''name'' = Some (name c) \<and> truthy (name c)
             \<and> map_of d ''formatted_address'' = Some (address c) \<and> truthy (address c)
             \<and> map_of d ''place_id'' = Some i \<and> truthy i
             \<and> rating c = (case map_of d ''rating'' of None \<Rightarrow> JStr ''N/A'' | Some r \<Rightarrow> r)
             \<and> link c = [Lit ''https://www.google.com/maps/search/?api=1&query='',
                          Str_json (name c), Lit '','', Str_json (address c),
                          Lit ''&query_place_id='', Str_json i])
         \<and> (\<forall>d. map_of d ''name'' = None \<or> map_of d ''formatted_address'' = None
                   \<or> map_of d ''place_id'' = None
                 \<longrightarrow> clinic_of (JDict d) = Inr None)"
proof -
  from find_nearby_clinics_nonempty [OF assms] obtain key where
    k: "maps_key = Some key" and sp: "search_places requests_get key location = Inr clinics"
    by blast
  from search_places_clinics [OF sp assms(2)] obtain status data rs where
    r: "requests_get ''https://maps.googleapis.com/maps/api/place/textsearch/json''
             [(''query'', ''clinics or hospitals near '' @ location), (''key'', key)]
             = Response status (Json (JDict data))"
    and res: "map_of data ''results'' = Some (JList rs)"
    and lp: "places_loop (take 5 rs) [] = Inr clinics"
    by blast
  from places_loop_Inr [OF lp] obtain opts where
    o: "map clinic_of (take 5 rs) = map Inr opts" and c: "clinics = List.map_filter id opts"
    by auto
  have each: "\<forall>c\<in>set clinics. \<exists>d i.
               JDict d \<in> set (take 5 rs)
             \<and> map_of d ''name'' = Some (name c) \<and> truthy (name c)
             \<and> map_of d ''formatted_address'' = Some (address c) \<and> truthy (address c)
             \<and> map_of d ''place_id'' = Some i \<and> truthy i
             \<and> rating c = (case map_of d ''rating'' of None \<Rightarrow> JStr ''N/A'' | Some r \<Rightarrow> r)
             \<and> link c = [Lit ''https://www.google.com/maps/search/?api=1&query='',
                          Str_json (name c), Lit '','', Str_json (address c),
                          Lit ''&query_place_id='', Str_json i]"
  proof
    fix cl assume "cl \<in> set clinics"
    then have "Some cl \<in> set opts" unfolding c by (simp add: map_filter_id_set)
    then have "Inr (Some cl) \<in> set (map clinic_of (take 5 rs))" unfolding o by simp
    then obtain place where p: "place \<in> set (take 5 rs)" "clinic_of place = Inr (Some cl)"
      by auto
    from clinic_of_Some [OF p(2)] p(1)
    show "\<exists>d i.
               JDict d \<in> set (take 5 rs)
             \<and> map_of d ''name'' = Some (name cl) \<and> truthy (name cl)
             \<and> map_of d ''formatted_address'' = Some (address cl) \<and> truthy (address cl)
             \<and> map_of d ''place_id'' = Some i \<and> truthy i
             \<and> rating cl = (case map_of d ''rating'' of None \<Rightarrow> JStr ''N/A'' | Some r \<Rightarrow> r)
             \<and> link cl = [Lit ''https://www.google.com/maps/search/?api=1&query='',
                          Str_json (name cl), Lit '','', Str_json (address cl),
                          Lit ''&query_place_id='', Str_json i]"
      by blast
  qed
  have skip: "\<forall>d. map_of d ''name'' = None \<or> map_of d ''formatted_address'' = None
                   \<or> map_of d ''place_id'' = None
                 \<longrightarrow> clinic_of (JDict d) = Inr None"
    using clinic_of_missing by blast
  from k r res o c each skip show ?thesis by blast
qed


theorem clinic_entries_witness:
  "\<exists>key status data rs opts.
     Some ''k'' = Some key
   \<and> (\<lambda>url params. Response 200 (Json (JDict [(''results'', JList
          [JDict [(''name'', JStr ''City Clinic''), (''formatted_address'', JStr ''1 Main St''),
                  (''place_id'', JStr ''p1'')],
           JDict [(''name'', JStr ''No Id''), (''formatted_address'', JStr ''2 High St'')]])])))
         ''https://maps.googleapis.com/maps/api/place/textsearch/json''
         [(''query'', ''clinics or hospitals near '' @ ''Lucknow''), (''key'', key)]
       = Response status (Json (JDict data))
   \<and> map_of data ''results'' = Some (JList rs)
   \<and> map clinic_of (take 5 rs) = map Inr opts
   \<and> [\<lparr>name = JStr ''City Clinic'', address = JStr ''1 Main St'', rating = JStr ''N/A'',
        link = [Lit ''https://www.google.com/maps/search/?api=1&query='',
                Str_json (JStr ''City Clinic''), Lit '','', Str_json (JStr ''1 Main St''),
                Lit ''&query_place_id='', Str_json (JStr ''p1'')]\<rparr>]
       = List.map_filter id opts
   \<and> (\<forall>c\<in>set [\<lparr>name = JStr ''City Clinic'', address = JStr ''1 Main St'',
                    rating = JStr ''N/A'',
                    link = [Lit ''https://www.google.com/maps/search/?api=1&query='',
                            Str_json (JStr ''City Clinic''), Lit '','',
                            Str_json (JStr ''1 Main St''),
                            Lit ''&query_place_id='', Str_json (JStr ''p1'')]\<rparr>]. \<exists>d i.
         JDict d \<in> set (take 5 rs)
       \<and> map_of d ''name'' = Some (name c) \<and> truthy (name c)
       \<and> map_of d ''formatted_address'' = Some (address c) \<and> truthy (address c)
       \<and> map_of d ''place_id'' = Some i \<and> truthy i
       \<and> rating c = (case map_of d ''rating'' of None \<Rightarrow> JStr ''N/A'' | Some r \<Rightarrow> r)
       \<and> link c = [Lit ''https://www.google.com/maps/search/?api=1&query='',
                    Str_json (name c), Lit '','', Str_json (address c),
                    Lit ''&query_place_id='', Str_json i])
   \<and> (\<forall>d. map_of d ''name'' = None \<or> map_of d ''formatted_address'' = None
             \<or> map_of d ''place_id'' = None
           \<longrightarrow> clinic_of (JDict d) = Inr None)"
  by (rule clinic_entries [where msgs = "[]"])
     (simp_all add: find_nearby_clinics_def search_places_def raise_for_status_def
        clinic_of_def)





subsection \<open>Configuration\<close>

lemma startup_keys:
  "GEMINI_API_KEY (fst (startup getenv files connect)) = getenv ''GEMINI_API_KEY''"
  "GOOGLE_MAPS_API_KEY (fst (startup getenv files connect)) = getenv ''GOOGLE_MAPS_API_KEY''"
  by (simp_all add: startup_def Let_def split: prod.splits)

lemma startup_gemini_unset:
  "unset (getenv ''GEMINI_API_KEY'') \<Longrightarrow>
     Error [Lit ''Gemini API Key not found. Please set GEMINI_API_KEY in your .env file.'']
       \<in> set (snd (startup getenv files connect))"
  by (simp add: startup_def Let_def split: prod.splits)

lemma startup_no_credentials:
  "getenv ''FIRESTORE_CREDENTIALS'' = None \<Longrightarrow>
     db (fst (startup getenv files connect)) = None
   \<and> Error [Lit ''Error initializing Firestore: '', Str_exn TypeError]
       \<in> set (snd (startup getenv files connect))"
  by (simp add: startup_def initialize_firestore_def Let_def split: prod.splits)

lemma startup_no_file:
  "getenv ''FIRESTORE_CREDENTIALS'' = Some p \<Longrightarrow> \<not> files p \<Longrightarrow>
     db (fst (startup getenv files connect)) = None
   \<and> Error [Lit ''Firestore credentials file not found. Please check your .env and file path.'']
       \<in> set (snd (startup getenv files connect))"
  by (simp add: startup_def initialize_firestore_def Let_def split: prod.splits)

lemma find_nearby_clinics_unset:
  "unset maps_key \<Longrightarrow>
     find_nearby_clinics maps_key requests_get location
       = Inr ([], [Error [Lit ''Google Maps API Key is not set. Please add it to your .env file.'']])"
  by (cases maps_key) (simp_all add: find_nearby_clinics_def)

text \<open>
  Claim C7: an absent configuration value gives a visible error and no crash. Without a
  Gemini key the start of the script shows an error. Without a credentials path, or with
  a path to no file, the start shows an error and leaves the database handle \<open>None\<close>;
  then \<open>add_reminder_to_firestore\<close> returns \<open>False\<close> and
  \<open>get_reminders_from_firestore\<close> returns \<open>[]\<close>, each with an error. Without a
  Maps key \<open>find_nearby_clinics\<close> shows an error and returns \<open>[]\<close>.
\<close>

theorem absent_configuration:
  "(unset (getenv ''GEMINI_API_KEY'') \<longrightarrow>
      Error [Lit ''Gemini API Key not found. Please set GEMINI_API_KEY in your .env file.'']
        \<in> set (snd (startup getenv files connect)))
   \<and> (getenv ''FIRESTORE_CREDENTIALS'' = None
        \<or> (\<exists>p. getenv ''FIRESTORE_CREDENTIALS'' = Some p \<and> \<not> files p) \<longrightarrow>
      db (fst (startup getenv files connect)) = None
    \<and> Error (case getenv ''FIRESTORE_CREDENTIALS'' of
               None \<Rightarrow> [Lit ''Error initializing Firestore: '', Str_exn TypeError]
             | Some p \<Rightarrow> [Lit ''Firestore credentials file not found. Please check your .env and file path.''])
        \<in> set (snd (startup getenv files connect)))
   \<and> (db (fst (startup getenv files connect)) = None \<longrightarrow>
      add_reminder_to_firestore (db (fst (startup getenv files connect))) reply user_id
          medicine_name dosage reminder_time_str
        = (False, [Error [Lit ''Firestore is not initialized. Cannot add reminder.'']], None)
    \<and> get_reminders_from_firestore (db (fst (startup getenv files connect))) query_reply user_id
        = ([], [Error [Lit ''Firestore is not initialized. Cannot retrieve reminders.'']]))
   \<and> (unset (getenv ''GOOGLE_MAPS_API_KEY'') \<longrightarrow>
      find_nearby_clinics (GOOGLE_MAPS_API_KEY (fst (startup getenv files connect)))
          requests_get location
        = Inr ([], [Error [Lit ''Google Maps API Key is not set. Please add it to your .env file.'']]))"
proof (intro conjI impI)
  assume "unset (getenv ''GEMINI_API_KEY'')"
  then show "Error [Lit ''Gemini API Key not found. Please set GEMINI_API_KEY in your .env file.'']
        \<in> set (snd (startup getenv files connect))"
    by (rule startup_gemini_unset)
next
  assume a: "getenv ''FIRESTORE_CREDENTIALS'' = None
        \<or> (\<exists>p. getenv ''FIRESTORE_CREDENTIALS'' = Some p \<and> \<not> files p)"
  then show "db (fst (startup getenv files connect)) = None"
    using startup_no_credentials [of getenv files connect]
      startup_no_file [of getenv _ files connect] by blast
  from a show "Error (case getenv ''FIRESTORE_CREDENTIALS'' of
               None \<Rightarrow> [Lit ''Error initializing Firestore: '', Str_exn TypeError]
             | Some p \<Rightarrow> [Lit ''Firestore credentials file not found. Please check your .env and file path.''])
        \<in> set (snd (startup getenv files connect))"
  proof
    assume n: "getenv ''FIRESTORE_CREDENTIALS'' = None"
    with startup_no_credentials [of getenv files connect] show ?thesis by simp
  next
    assume "\<exists>p. getenv ''FIRESTORE_CREDENTIALS'' = Some p \<and> \<not> files p"
    then obtain p where p: "getenv ''FIRESTORE_CREDENTIALS'' = Some p" "\<not> files p" by blast
    with startup_no_file [of getenv p files connect] show ?thesis by simp
  qed
next
  assume n: "db (fst (startup getenv files connect)) = None"
  show "add_reminder_to_firestore (db (fst (startup getenv files connect))) reply user_id
          medicine_name dosage reminder_time_str
        = (False, [Error [Lit ''Firestore is not initialized. Cannot add reminder.'']], None)"
    unfolding n by (rule add_reminder_None)
  show "get_reminders_from_firestore (db (fst (startup getenv files connect))) query_reply user_id
        = ([], [Error [Lit ''Firestore is not initialized. Cannot retrieve reminders.'']])"
    unfolding n by (rule get_reminders_None)
next
  assume "unset (getenv ''GOOGLE_MAPS_API_KEY'')"
  then show "find_nearby_clinics (GOOGLE_MAPS_API_KEY (fst (startup getenv files connect)))
          requests_get location
        = Inr ([], [Error [Lit ''Google Maps API Key is not set. Please add it to your .env file.'']])"
    unfolding startup_keys by (rule find_nearby_clinics_unset)
qed

theorem absent_configuration_witness:
  "Error [Lit ''Gemini API Key not found. Please set GEMINI_API_KEY in your .env file.'']
     \<in> set (snd (startup (\<lambda>k. None) (\<lambda>p. False) (\<lambda>p. Inl (Exception ''no client''))))
   \<and> db (fst (startup (\<lambda>k. None) (\<lambda>p. False) (\<lambda>p. Inl (Exception ''no client'')))) = None
   \<and> Error [Lit ''Error initializing Firestore: '', Str_exn TypeError]
     \<in> set (snd (startup (\<lambda>k. None) (\<lambda>p. False) (\<lambda>p. Inl (Exception ''no client''))))
   \<and> add_reminder_to_firestore
       (db (fst (startup (\<lambda>k. None) (\<lambda>p. False) (\<lambda>p. Inl (Exception ''no client'')))))
       (Committed 7) ''user_1'' ''Aspirin'' ''1 tablet'' ''09:30''
     = (False, [Error [Lit ''Firestore is not initialized. Cannot add reminder.'']], None)
   \<and> get_reminders_from_firestore
       (db (fst (startup (\<lambda>k. None) (\<lambda>p. False) (\<lambda>p. Inl (Exception ''no client'')))))
       Streams ''user_1''
     = ([], [Error [Lit ''Firestore is not initialized. Cannot retrieve reminders.'']])
   \<and> find_nearby_clinics
       (GOOGLE_MAPS_API_KEY
          (fst (startup (\<lambda>k. None) (\<lambda>p. False) (\<lambda>p. Inl (Exception ''no client'')))))
       (\<lambda>url params. Get_raises (RequestException ''offline'')) ''Lucknow''
     = Inr ([], [Error [Lit ''Google Maps API Key is not set. Please add it to your .env file.'']])"
  using absent_configuration [of "\<lambda>k. None" "\<lambda>p. False" "\<lambda>p. Inl (Exception ''no client'')"
      "Committed 7" "''user_1''" "''Aspirin''" "''1 tablet''" "''09:30''" Streams
      "\<lambda>url params. Get_raises (RequestException ''offline'')" "''Lucknow''"]
  by simp


subsection \<open>Failures\<close>






end
